theory Spec2Isabelle
  imports Complex_Main "HOL-Library.Word" "HOL-Library.AList"
begin

section \<open>Object model\<close>

text \<open>
  The store of \<^verbatim>\<open>file.go\<close> (package \<^verbatim>\<open>pdf\<close>). Go's \<^verbatim>\<open>uint\<close> is a 64-bit word
  (addition, subtraction and multiplication wrap); Go's \<^verbatim>\<open>int\<close>, \<^verbatim>\<open>int64\<close> and the
  \<^verbatim>\<open>Integer\<close> object are \<open>int\<close>, and the conversions \<^verbatim>\<open>int(u)\<close> and
  \<^verbatim>\<open>Integer(u)\<close> of a \<^verbatim>\<open>uint\<close> are \<open>sint\<close>. A \<^verbatim>\<open>[]byte\<close> is a \<open>string\<close>.
\<close>

type_synonym uint = "64 word"
type_synonym bytes = string

record ObjectReference =
  ObjectNumber :: uint
  GenerationNumber :: uint

text \<open>
  The values built by \<^verbatim>\<open>fmt.Errorf\<close> and \<^verbatim>\<open>errors.New\<close> in \<^verbatim>\<open>file.go\<close>, one
  constructor for each message, holding the arguments the message formats.
  \<open>External\<close> is an error of the operating system or of the codec.
\<close>

datatype error =
    NotFound ObjectReference
  | IsFreeObject ObjectReference
  | ErrorParsing ObjectReference
  | NotAnIndirectObject ObjectReference
  | ObjectIsNil ObjectReference
  | NotAStream ObjectReference ObjectReference ObjectReference
  | CouldNotDecode ObjectReference
  | UnableToParseNumeric bytes
  | UnableToParseObject bytes
  | FreedAfterLoad ObjectReference
  | GenerationTooSmall
  | External string

text \<open>
  The \<^verbatim>\<open>Object\<close> interface. \<open>NilObject\<close> is the nil interface value (what a
  dictionary returns for a missing key, and what an \<^verbatim>\<open>IndirectObject\<close> without a
  value holds). A \<^verbatim>\<open>Dictionary\<close> (a Go map) is an association list read with
  \<open>map_of\<close> and written with \<open>AList.update\<close>. \<open>Null\<close> carries the error it
  was built from, if any.
\<close>

datatype Object =
    Boolean bool
  | Integer int
  | Real real
  | String bytes
  | Name string
  | Array "Object list"
  | Dictionary "(string \<times> Object) list"
  | Stream "(string \<times> Object) list" bytes
  | Null "error option"
  | Reference ObjectReference
  | IndirectObject ObjectReference Object
  | NilObject

text \<open>\<^verbatim>\<open>type crossReference [3]uint\<close>: the entry type, and two fields.\<close>

type_synonym crossReference = "uint \<times> uint \<times> uint"

text \<open>
  What \<^verbatim>\<open>File.objects\<close> holds for an object number: a \<^verbatim>\<open>crossReference\<close> (existing
  object), an \<^verbatim>\<open>IndirectObject\<close> (new object) or a \<^verbatim>\<open>freeObject\<close> (newly freed
  object, with the generation number of its next use).
\<close>

datatype slot =
    XRef crossReference
  | NewObject ObjectReference Object
  | FreeObject uint

record File =
  filename :: string
  created :: bool
  mmap :: bytes
  objects :: "uint \<rightharpoonup> slot"
  size_f :: uint
  prev :: int
  Root :: ObjectReference
  Encrypt :: "(string \<times> Object) list"
  Info :: ObjectReference
  ID :: "Object list"

text \<open>The run-time panics of the Go code.\<close>

datatype panic =
    PanicValue uint
  | UnhandledType
  | TypeAssertion
  | IndexOutOfRange
  | SliceBounds
  | PanicError error
  | PanicMessage string

text \<open>
  The codec is not part of \<^verbatim>\<open>file.go\<close>: the parsers, the stream decoder, the bytes
  that \<^verbatim>\<open>writeTo\<close> gives an object, and the two helpers of the cross-reference stream
  are parameters. A parser returns the object and the number of bytes it consumed, or an
  error.
\<close>

record codec =
  parseIndirectObject :: "bytes \<Rightarrow> error + (Object \<times> int)"
  parseNumeric :: "bytes \<Rightarrow> error + (Object \<times> int)"
  parseObject :: "bytes \<Rightarrow> error + (Object \<times> int)"
  Decode :: "(string \<times> Object) list \<Rightarrow> bytes \<Rightarrow> error + bytes"
  writeObject :: "Object \<Rightarrow> bytes"
  nBytesForInt :: "int \<Rightarrow> int"
  intToBytes :: "uint \<Rightarrow> int \<Rightarrow> bytes"

section \<open>Get\<close>

text \<open>
  The result of \<^verbatim>\<open>Get\<close>: \<open>None\<close> when the recursion has used its fuel,
  \<open>Some (Inl p)\<close> for a panic, \<open>Some (Inr obj)\<close> for a returned object.
\<close>

type_synonym outcome = "(panic + Object) option"

definition returns :: "Object \<Rightarrow> outcome" where
  "returns obj = Some (Inr obj)"

definition panics :: "panic \<Rightarrow> outcome" where
  "panics p = Some (Inl p)"

text \<open>\<^verbatim>\<open>s[i:]\<close>: a panic when \<open>i\<close> is out of range.\<close>

definition sliceFrom :: "bytes \<Rightarrow> int \<Rightarrow> panic + bytes" where
  "sliceFrom s i = (if 0 \<le> i \<and> i \<le> int (length s) then Inr (drop (nat i) s) else Inl SliceBounds)"

text \<open>\<^verbatim>\<open>index[i]\<close> for a \<^verbatim>\<open>uint\<close> or \<^verbatim>\<open>int\<close> position.\<close>

definition elemAt :: "'a list \<Rightarrow> nat \<Rightarrow> panic + 'a" where
  "elemAt xs i = (if i < length xs then Inr (xs ! i) else Inl IndexOutOfRange)"

text \<open>
  Lines 219 to 229: a stream whose \<^verbatim>\<open>Length\<close> is a reference gets the referenced
  integer as its length and its payload cut to it. The type assertion
  \<^verbatim>\<open>f.Get(lengthRef).(Integer)\<close> has no second result, so it panics on any other
  object. The payload's capacity is taken to be its length.
\<close>

definition resolveLength :: "(ObjectReference \<Rightarrow> outcome) \<Rightarrow> Object \<Rightarrow> outcome" where
  "resolveLength get object =
     (case object of
        Stream d s \<Rightarrow>
          (case map_of d ''Length'' of
             Some (Reference lengthRef) \<Rightarrow>
               (case get lengthRef of
                  None \<Rightarrow> None
                | Some (Inl p) \<Rightarrow> panics p
                | Some (Inr (Integer len)) \<Rightarrow>
                    (if 0 \<le> len \<and> len \<le> int (length s)
                     then returns (Stream (AList.update ''Length'' (Integer len) d) (take (nat len) s))
                     else panics SliceBounds)
                | Some (Inr _) \<Rightarrow> panics TypeAssertion)
           | _ \<Rightarrow> returns object)
      | _ \<Rightarrow> returns object)"

text \<open>
  Lines 171 to 180: the loop that parses the \<open>2 * N\<close> numbers of an object stream's
  header. \<open>Inl r\<close> is the result \<^verbatim>\<open>Get\<close> returns at once, \<open>Inr index\<close> the parsed
  header.
\<close>

fun parseIndex :: "codec \<Rightarrow> bytes \<Rightarrow> nat \<Rightarrow> int \<Rightarrow> int list \<Rightarrow> (panic + Object) + int list" where
  "parseIndex c stream 0 offset index = Inr index"
| "parseIndex c stream (Suc cnt) offset index =
     (case sliceFrom stream offset of
        Inl p \<Rightarrow> Inl (Inl p)
      | Inr rest \<Rightarrow>
          (case parseNumeric c rest of
             Inl err \<Rightarrow> Inl (Inr (Null (Some (UnableToParseNumeric rest))))
           | Inr (obj, n) \<Rightarrow>
               (case obj of
                  Integer i \<Rightarrow> parseIndex c stream cnt (offset + n) (index @ [i])
                | _ \<Rightarrow> Inl (Inl TypeAssertion))))"

text \<open>
  Lines 191 to 196: the scan of the header for the requested object number; \<open>offset\<close>
  keeps its value when no pair has the number.
\<close>

fun scanIndex :: "int list \<Rightarrow> int \<Rightarrow> int \<Rightarrow> panic + int" where
  "scanIndex [] objectNumber offset = Inr offset"
| "scanIndex [x] objectNumber offset =
     (if x = objectNumber then Inl IndexOutOfRange else Inr offset)"
| "scanIndex (x # y # rest) objectNumber offset =
     (if x = objectNumber then Inr y else scanIndex rest objectNumber offset)"

text \<open>Lines 140 to 154: a normal entry, parsed from the mapped file.\<close>

definition getNormal ::
  "codec \<Rightarrow> (ObjectReference \<Rightarrow> outcome) \<Rightarrow> bytes \<Rightarrow> ObjectReference \<Rightarrow> crossReference \<Rightarrow> outcome" where
  "getNormal c get m ref typed =
     (case typed of (t, a, b) \<Rightarrow>
        (case sliceFrom m (uint (a - 1)) of
           Inl p \<Rightarrow> panics p
         | Inr rest \<Rightarrow>
             (case parseIndirectObject c rest of
                Inl err \<Rightarrow> returns (Null (Some (ErrorParsing ref)))
              | Inr (obj, n) \<Rightarrow>
                  (case obj of
                     IndirectObject r v \<Rightarrow>
                       (if v = NilObject then returns (Null (Some (ObjectIsNil ref)))
                        else resolveLength get v)
                   | _ \<Rightarrow> returns (Null (Some (NotAnIndirectObject ref)))))))"

text \<open>Lines 183 to 204: the object at a slot of a decoded object stream.\<close>

definition fromIndex ::
  "codec \<Rightarrow> (ObjectReference \<Rightarrow> outcome) \<Rightarrow> ObjectReference \<Rightarrow> uint \<Rightarrow>
   (string \<times> Object) list \<Rightarrow> bytes \<Rightarrow> int list \<Rightarrow> outcome" where
  "fromIndex c get ref slotIndex d stream index =
     (let start = slotIndex * 2 in
      case elemAt index (unat start) of
        Inl p \<Rightarrow> panics p
      | Inr objectNumber \<Rightarrow>
          (case elemAt index (unat (start + 1)) of
             Inl p \<Rightarrow> panics p
           | Inr offset0 \<Rightarrow>
               (case (if objectNumber \<noteq> sint (ObjectNumber ref)
                      then scanIndex index (sint (ObjectNumber ref)) offset0
                      else Inr offset0) of
                  Inl p \<Rightarrow> panics p
                | Inr offset \<Rightarrow>
                    (case map_of d ''First'' of
                       Some (Integer first) \<Rightarrow>
                         (case sliceFrom stream (first + offset) of
                            Inl p \<Rightarrow> panics p
                          | Inr rest \<Rightarrow>
                              (case parseObject c rest of
                                 Inl err \<Rightarrow> returns (Null (Some (UnableToParseObject rest)))
                               | Inr (object, n) \<Rightarrow> resolveLength get object))
                     | _ \<Rightarrow> panics TypeAssertion))))"

text \<open>Lines 156 to 204: an entry in an object stream.\<close>

definition getCompressed ::
  "codec \<Rightarrow> (ObjectReference \<Rightarrow> outcome) \<Rightarrow> ObjectReference \<Rightarrow> crossReference \<Rightarrow> outcome" where
  "getCompressed c get ref typed =
     (case typed of (t, a, b) \<Rightarrow>
        (let objectStreamRef = \<lparr>ObjectNumber = a, GenerationNumber = 0\<rparr> in
         case get objectStreamRef of
           None \<Rightarrow> None
         | Some (Inl p) \<Rightarrow> panics p
         | Some (Inr (Stream d s)) \<Rightarrow>
             (case map_of d ''N'' of
                Some (Integer N) \<Rightarrow>
                  (case Decode c d s of
                     Inl err \<Rightarrow> returns (Null (Some (CouldNotDecode objectStreamRef)))
                   | Inr stream \<Rightarrow>
                       (case parseIndex c stream (nat (N * 2)) 0 [] of
                          Inl r \<Rightarrow> Some r
                        | Inr index \<Rightarrow> fromIndex c get ref b d stream index))
              | _ \<Rightarrow> panics TypeAssertion)
         | Some (Inr _) \<Rightarrow>
             returns (Null (Some (NotAStream ref objectStreamRef objectStreamRef)))))"

text \<open>
  \<^verbatim>\<open>Get\<close>, lines 125 to 230. It calls itself for the object stream and for a stream's
  length; nothing bounds that recursion, so the model takes fuel.
\<close>

fun Get :: "codec \<Rightarrow> nat \<Rightarrow> File \<Rightarrow> ObjectReference \<Rightarrow> outcome" where
  "Get c 0 f ref = None"
| "Get c (Suc k) f ref =
     (case objects f (ObjectNumber ref) of
        None \<Rightarrow> returns (Null (Some (NotFound ref)))
      | Some (XRef typed) \<Rightarrow>
          (if fst typed = 0 then returns (Null (Some (IsFreeObject ref)))
           else if fst typed = 1 then getNormal c (Get c k f) (mmap f) ref typed
           else if fst typed = 2 then getCompressed c (Get c k f) ref typed
           else panics (PanicValue (fst typed)))
      | Some (NewObject r v) \<Rightarrow> resolveLength (Get c k f) v
      | Some (FreeObject g) \<Rightarrow> returns (Null (Some (FreedAfterLoad ref))))"

section \<open>Add and Free\<close>

text \<open>Lines 255 to 276: the minimum generation number an existing slot allows.\<close>

definition minGenerationNumber :: "slot \<Rightarrow> panic + uint" where
  "minGenerationNumber existing =
     (case existing of
        XRef typed \<Rightarrow>
          (if fst typed = 0 then Inr (snd (snd typed))
           else if fst typed = 1 then Inr (snd (snd typed))
           else if fst typed = 2 then Inr 0
           else Inl (PanicValue (fst typed)))
      | NewObject r v \<Rightarrow> Inr (GenerationNumber r)
      | FreeObject g \<Rightarrow> Inr g)"

text \<open>
  \<^verbatim>\<open>Add\<close>, lines 241 to 301: the new store, the returned reference and the returned
  error.
\<close>

definition Add :: "File \<Rightarrow> Object \<Rightarrow> panic + (File \<times> ObjectReference \<times> error option)" where
  "Add f obj =
     (case obj of
        IndirectObject r v \<Rightarrow>
          (let ref = \<lparr>ObjectNumber = ObjectNumber r, GenerationNumber = GenerationNumber r\<rparr>;
               stored = f\<lparr>objects := (objects f)(ObjectNumber ref \<mapsto> NewObject r v)\<rparr>
           in case objects f (ObjectNumber ref) of
                Some existing \<Rightarrow>
                  (case minGenerationNumber existing of
                     Inl p \<Rightarrow> Inl p
                   | Inr minGen \<Rightarrow>
                       (if GenerationNumber ref < minGen
                        then Inr (f, ref\<lparr>GenerationNumber := minGen\<rparr>, Some GenerationTooSmall)
                        else Inr (stored, ref, None)))
              | None \<Rightarrow> Inr (stored, ref, None))
      | _ \<Rightarrow>
          (let objectNumber = size_f f;
               ref = \<lparr>ObjectNumber = objectNumber, GenerationNumber = 0\<rparr>
           in Inr (f\<lparr>size_f := size_f f + 1,
                     objects := (objects f)(objectNumber \<mapsto> NewObject ref obj)\<rparr>, ref, None)))"

text \<open>\<^verbatim>\<open>Free\<close>, lines 696 to 726.\<close>

definition Free :: "File \<Rightarrow> uint \<Rightarrow> panic + File" where
  "Free f objectNumber =
     (case objects f objectNumber of
        None \<Rightarrow> Inr f
      | Some (XRef typed) \<Rightarrow>
          (if fst typed = 0 then Inr f
           else if fst typed = 1
             then Inr (f\<lparr>objects := (objects f)(objectNumber \<mapsto> FreeObject (snd (snd typed) + 1))\<rparr>)
           else if fst typed = 2
             then Inr (f\<lparr>objects := (objects f)(objectNumber \<mapsto> FreeObject 1)\<rparr>)
           else Inl (PanicValue (fst typed)))
      | Some (NewObject r v) \<Rightarrow>
          Inr (f\<lparr>objects := (objects f)(objectNumber \<mapsto> FreeObject (GenerationNumber r + 1))\<rparr>)
      | Some (FreeObject g) \<Rightarrow> Inr f)"

section \<open>Save\<close>

text \<open>
  The operating system, as far as \<^verbatim>\<open>Save\<close> sees it: \<^verbatim>\<open>os.Stat\<close>,
  \<^verbatim>\<open>os.OpenFile\<close>, a \<^verbatim>\<open>Write\<close> on the file and its \<^verbatim>\<open>Close\<close> may each fail.
  The file on disk is its bytes; a write that succeeds appends all of its bytes.
\<close>

record sys =
  statErr :: "error option"
  openErr :: "error option"
  writeErr :: "bytes \<Rightarrow> bytes \<Rightarrow> error option"
  closeErr :: "error option"

definition newline :: char where
  "newline = CHR 0x0A"

definition carriageReturn :: char where
  "carriageReturn = CHR 0x0D"

definition fwrite :: "sys \<Rightarrow> bytes \<Rightarrow> bytes \<Rightarrow> error + (bytes \<times> int)" where
  "fwrite os disk b =
     (case writeErr os disk b of Some err \<Rightarrow> Inl err | None \<Rightarrow> Inr (disk @ b, int (length b)))"

text \<open>\<^verbatim>\<open>fmt.Fprintf(file, ...)\<close>, whose error the code drops.\<close>

definition fprintf :: "sys \<Rightarrow> bytes \<Rightarrow> bytes \<Rightarrow> bytes" where
  "fprintf os disk b = (case fwrite os disk b of Inl err \<Rightarrow> disk | Inr (disk', n) \<Rightarrow> disk')"

text \<open>\<^verbatim>\<open>writeLineBreakTo\<close>, lines 303 to 306.\<close>

definition writeLineBreakTo :: "sys \<Rightarrow> bytes \<Rightarrow> error + (bytes \<times> int)" where
  "writeLineBreakTo os disk = fwrite os disk [newline, newline]"

definition writeTo :: "codec \<Rightarrow> sys \<Rightarrow> bytes \<Rightarrow> Object \<Rightarrow> error + (bytes \<times> int)" where
  "writeTo c os disk obj = fwrite os disk (writeObject c obj)"

text \<open>The verbs \<^verbatim>\<open>%d\<close>, and \<^verbatim>\<open>%010d\<close> and \<^verbatim>\<open>%05d\<close> on a \<^verbatim>\<open>uint\<close>.\<close>

fun decimal :: "nat \<Rightarrow> string" where
  "decimal n = (if n < 10 then [char_of (48 + n)] else decimal (n div 10) @ [char_of (48 + n mod 10)])"

declare decimal.simps [simp del]

definition fmtInt :: "int \<Rightarrow> string" where
  "fmtInt i = (if i < 0 then CHR ''-'' # decimal (nat (- i)) else decimal (nat i))"

definition fmtPadded :: "nat \<Rightarrow> uint \<Rightarrow> string" where
  "fmtPadded w u = replicate (w - length (decimal (unat u))) CHR ''0'' @ decimal (unat u)"

text \<open>
  \<^verbatim>\<open>xrefs := map[Integer]crossReference{}\<close>: an association list with one pair for a
  key. Reading a key that is absent gives the zero value.
\<close>

type_synonym xrefs = "(int \<times> crossReference) list"

definition lookupXref :: "xrefs \<Rightarrow> int \<Rightarrow> crossReference" where
  "lookupXref xrefs k = (case map_of xrefs k of None \<Rightarrow> (0, 0, 0) | Some xref \<Rightarrow> xref)"

text \<open>
  Lines 349 to 377 and 508 to 536, the same loop in both forms: \<^verbatim>\<open>for i := range
  f.objects\<close>. Go leaves the order of the keys open, so the order is the argument
  \<open>keys\<close>. The state is the index being built, the free list, the offset and the file.
\<close>

fun writeObjects ::
  "codec \<Rightarrow> sys \<Rightarrow> (uint \<rightharpoonup> slot) \<Rightarrow> uint list \<Rightarrow> xrefs \<times> int list \<times> int \<times> bytes \<Rightarrow>
   error + (xrefs \<times> int list \<times> int \<times> bytes)" where
  "writeObjects c os objs [] st = Inr st"
| "writeObjects c os objs (i # rest) (xrefs, free, offset, disk) =
     (case objs i of
        None \<Rightarrow> writeObjects c os objs rest (xrefs, free, offset, disk)
      | Some (XRef typed) \<Rightarrow>
          writeObjects c os objs rest
            (xrefs, (if fst typed = 0 then free @ [sint i] else free), offset, disk)
      | Some (NewObject r v) \<Rightarrow>
          (case writeTo c os disk (IndirectObject r v) of
             Inl err \<Rightarrow> Inl err
           | Inr (disk1, n) \<Rightarrow>
               (case writeLineBreakTo os disk1 of
                  Inl err \<Rightarrow> Inl err
                | Inr (disk2, n2) \<Rightarrow>
                    writeObjects c os objs rest
                      (AList.update (sint i) (1, word_of_int (offset - 1), GenerationNumber r) xrefs,
                       free, offset + n + n2, disk2)))
      | Some (FreeObject g) \<Rightarrow>
          writeObjects c os objs rest
            (AList.update (sint i) (0, 0, g) xrefs, free @ [sint i], offset, disk))"

text \<open>Lines 437 to 442 and 539 to 544: the highest object number of the store.\<close>

definition maxObjNum :: "uint list \<Rightarrow> uint" where
  "maxObjNum keys = foldl (\<lambda>m objNum. if objNum > m then objNum else m) 0 keys"

text \<open>
  Lines 381 to 385 and 555 to 559, on the sorted free list: each free entry's second
  field becomes the next free object number.
\<close>

fun linkFree :: "int list \<Rightarrow> xrefs \<Rightarrow> xrefs" where
  "linkFree (a # b # rest) xrefs =
     linkFree (b # rest)
       (case lookupXref xrefs a of (t, x, g) \<Rightarrow> AList.update a (t, word_of_int b, g) xrefs)"
| "linkFree free xrefs = xrefs"

text \<open>Lines 394 to 407 and 568 to 580: the sorted object numbers cut into runs.\<close>

definition groupConsecutive :: "int list \<Rightarrow> int list list" where
  "groupConsecutive objs =
     (case foldl (\<lambda>(groups, groupStart) i.
                    if objs ! i \<noteq> objs ! (i - 1) + 1
                    then (groups @ [take (i - groupStart) (drop groupStart objs)], i)
                    else (groups, groupStart))
                 ([], 0) [1..<length objs] of
        (groups, groupStart) \<Rightarrow> groups @ [drop groupStart objs])"

text \<open>
  Lines 443 to 466 and 584 to 607: the entries both trailers have. \<open>maxObj\<close> is the
  value of \<^verbatim>\<open>maxObjNum\<close> when \<^verbatim>\<open>Size\<close> is set.
\<close>

definition trailerFields :: "File \<Rightarrow> uint \<Rightarrow> (string \<times> Object) list" where
  "trailerFields f maxObj =
     (let t0 = AList.update ''Size'' (Integer (sint (maxObj + 1))) [];
          t1 = (if prev f \<noteq> 0 then AList.update ''Prev'' (Integer (prev f)) t0 else t0);
          t2 = AList.update ''Root'' (Reference (Root f)) t1;
          t3 = (if length (Encrypt f) \<noteq> 0 then AList.update ''Encrypt'' (Dictionary (Encrypt f)) t2 else t2);
          t4 = (if ObjectNumber (Info f) \<noteq> 0 then AList.update ''Info'' (Reference (Info f)) t3 else t3)
      in if length (ID f) \<noteq> 0 then AList.update ''ID'' (Array (ID f)) t4 else t4)"

text \<open>Lines 613 to 617: the \<^verbatim>\<open>Index\<close> array; \<^verbatim>\<open>group[0]\<close> panics on an empty run.\<close>

fun indexArray :: "int list list \<Rightarrow> panic + Object list" where
  "indexArray [] = Inr []"
| "indexArray (grp # rest) =
     (case grp of
        [] \<Rightarrow> Inl IndexOutOfRange
      | first # others \<Rightarrow>
          (case indexArray rest of
             Inl p \<Rightarrow> Inl p
           | Inr index \<Rightarrow> Inr (Integer first # Integer (int (length grp)) # index)))"

text \<open>Lines 621 to 628: the largest value of each of the three fields.\<close>

definition maxXref :: "xrefs \<Rightarrow> crossReference" where
  "maxXref xrefs =
     foldl (\<lambda>(m0, m1, m2) (k, (x0, x1, x2)).
              (if x0 > m0 then x0 else m0, if x1 > m1 then x1 else m1, if x2 > m2 then x2 else m2))
           (0, 0, 0) xrefs"

text \<open>Lines 637 to 648: the payload of the cross-reference stream.\<close>

definition xrefStreamBytes :: "codec \<Rightarrow> int \<times> int \<times> int \<Rightarrow> xrefs \<Rightarrow> int list list \<Rightarrow> bytes" where
  "xrefStreamBytes c nBytes xrefs groups =
     concat (map (\<lambda>objectNumber.
                    case (lookupXref xrefs objectNumber, nBytes) of
                      ((x0, x1, x2), (n0, n1, n2)) \<Rightarrow>
                        intToBytes c x0 n0 @ intToBytes c x1 n1 @ intToBytes c x2 n2)
                 (concat groups))"

text \<open>
  What a successful save has written, besides the bytes: the index, its runs, the trailer
  and the offset after \<^verbatim>\<open>startxref\<close>. A save ends in a panic, in an error, or in the new
  store, the new file and the revision.
\<close>

record revision =
  rev_xrefs :: xrefs
  rev_groups :: "int list list"
  rev_trailer :: "(string \<times> Object) list"
  rev_startxref :: int

type_synonym saved = "panic + (error + (File \<times> bytes \<times> revision))"

text \<open>Lines 473 and 669: \<^verbatim>\<open>"\nstartxref\n%d\n%%%%EOF"\<close> with \<^verbatim>\<open>offset-1\<close>.\<close>

definition footer :: "int \<Rightarrow> bytes" where
  "footer offset = newline # ''startxref'' @ newline # fmtInt (offset - 1) @ newline # ''%%EOF''"

text \<open>Lines 329 to 334 and 488 to 493: the deferred \<^verbatim>\<open>Close\<close>, which panics on an error.\<close>

definition deferClose :: "sys \<Rightarrow> saved \<Rightarrow> saved" where
  "deferClose os r = (case closeErr os of Some err \<Rightarrow> Inl (PanicError err) | None \<Rightarrow> r)"

text \<open>Lines 538 to 671: the cross-reference stream, after the objects are written.\<close>

definition streamRevision ::
  "codec \<Rightarrow> sys \<Rightarrow> File \<Rightarrow> uint list \<Rightarrow> xrefs \<Rightarrow> int list \<Rightarrow> int \<Rightarrow> bytes \<Rightarrow> saved" where
  "streamRevision c os f keys xrefs1 free offset disk =
     (let maxObj = maxObjNum keys;
          xrefstreamObjectNumber = maxObj + 1;
          maxObj' = maxObj + 1;
          xref = (1, word_of_int (offset - 1), 0);
          xrefs2 = AList.update (sint xrefstreamObjectNumber) xref xrefs1;
          f1 = f\<lparr>objects := (objects f)(xrefstreamObjectNumber \<mapsto> XRef xref)\<rparr>;
          xrefs3 = linkFree (sort free) xrefs2;
          groups = groupConsecutive (sort (map fst xrefs3));
          trailer1 = AList.update ''Type'' (Name ''XRef'') (trailerFields f maxObj')
      in case indexArray groups of
           Inl p \<Rightarrow> Inl p
         | Inr index \<Rightarrow>
             (let trailer2 = AList.update ''Index'' (Array index) trailer1;
                  nBytes = (case maxXref xrefs3 of (m0, m1, m2) \<Rightarrow>
                              (nBytesForInt c (sint m0), nBytesForInt c (sint m1), nBytesForInt c (sint m2)));
                  trailer3 = AList.update ''W''
                    (case nBytes of (n0, n1, n2) \<Rightarrow> Array [Integer n0, Integer n1, Integer n2]) trailer2;
                  xrefstream = IndirectObject
                    \<lparr>ObjectNumber = xrefstreamObjectNumber, GenerationNumber = 0\<rparr>
                    (Stream trailer3 (xrefStreamBytes c nBytes xrefs3 groups))
              in case Add f1 xrefstream of
                   Inl p \<Rightarrow> Inl p
                 | Inr (f2, ref, Some err) \<Rightarrow> Inr (Inl err)
                 | Inr (f2, ref, None) \<Rightarrow>
                     (case writeTo c os disk xrefstream of
                        Inl err \<Rightarrow> Inr (Inl err)
                      | Inr (disk1, n) \<Rightarrow>
                          Inr (Inr (f2, fprintf os disk1 (footer offset),
                            \<lparr>rev_xrefs = xrefs3, rev_groups = groups, rev_trailer = trailer3,
                             rev_startxref = offset - 1\<rparr>)))))"

text \<open>\<^verbatim>\<open>saveUsingXrefStream\<close>, lines 478 to 672; the free list starts as \<^verbatim>\<open>{0}\<close>.\<close>

definition saveUsingXrefStream :: "codec \<Rightarrow> sys \<Rightarrow> uint list \<Rightarrow> File \<Rightarrow> bytes \<Rightarrow> saved" where
  "saveUsingXrefStream c os keys f disk =
     (case statErr os of
        Some err \<Rightarrow> Inr (Inl err)
      | None \<Rightarrow>
          (case openErr os of
             Some err \<Rightarrow> Inr (Inl err)
           | None \<Rightarrow>
               deferClose os
                 (let offset = int (length disk) + 1 in
                  case writeLineBreakTo os disk of
                    Inl err \<Rightarrow> Inr (Inl err)
                  | Inr (disk1, n) \<Rightarrow>
                      (case writeObjects c os (objects f) keys
                              ([(0, (0, 0, 65535))], [0], offset + n, disk1) of
                         Inl err \<Rightarrow> Inr (Inl err)
                       | Inr (xrefs1, free, offset1, disk2) \<Rightarrow>
                           streamRevision c os f keys xrefs1 free offset1 disk2))))"

text \<open>\<^verbatim>\<open>Save\<close>, lines 314 to 317.\<close>

definition Save :: "codec \<Rightarrow> sys \<Rightarrow> uint list \<Rightarrow> File \<Rightarrow> bytes \<Rightarrow> saved" where
  "Save c os keys f disk = saveUsingXrefStream c os keys f disk"

text \<open>Lines 411 to 429: the lines of the classic table.\<close>

fun tableEntries :: "sys \<Rightarrow> xrefs \<Rightarrow> int list \<Rightarrow> bytes \<Rightarrow> panic + bytes" where
  "tableEntries os xrefs [] disk = Inr disk"
| "tableEntries os xrefs (objectNumber # rest) disk =
     (case lookupXref xrefs objectNumber of
        (x0, x1, x2) \<Rightarrow>
          (let disk1 = fprintf os disk (fmtPadded 10 x1 @ '' '' @ fmtPadded 5 x2 @ '' '') in
           if x0 = 0 then tableEntries os xrefs rest (fprintf os disk1 [CHR ''f'', carriageReturn, newline])
           else if x0 = 1 then tableEntries os xrefs rest (fprintf os disk1 [CHR ''n'', carriageReturn, newline])
           else if x0 = 2 then Inl (PanicMessage ''can't be in xref table'')
           else Inl (PanicMessage ''unhandled case'')))"

fun tableGroups :: "sys \<Rightarrow> xrefs \<Rightarrow> int list list \<Rightarrow> bytes \<Rightarrow> panic + bytes" where
  "tableGroups os xrefs [] disk = Inr disk"
| "tableGroups os xrefs (grp # rest) disk =
     (case grp of
        [] \<Rightarrow> Inl IndexOutOfRange
      | first # others \<Rightarrow>
          (case tableEntries os xrefs grp
                  (fprintf os disk (fmtInt first @ '' '' @ fmtInt (int (length grp)) @ [newline])) of
             Inl p \<Rightarrow> Inl p
           | Inr disk1 \<Rightarrow> tableGroups os xrefs rest disk1))"

text \<open>\<^verbatim>\<open>saveUsingXrefTable\<close>, lines 319 to 476; the free list starts empty.\<close>

definition saveUsingXrefTable :: "codec \<Rightarrow> sys \<Rightarrow> uint list \<Rightarrow> File \<Rightarrow> bytes \<Rightarrow> saved" where
  "saveUsingXrefTable c os keys f disk =
     (case statErr os of
        Some err \<Rightarrow> Inr (Inl err)
      | None \<Rightarrow>
          (case openErr os of
             Some err \<Rightarrow> Inr (Inl err)
           | None \<Rightarrow>
               deferClose os
                 (let offset = int (length disk) + 1 in
                  case writeLineBreakTo os disk of
                    Inl err \<Rightarrow> Inr (Inl err)
                  | Inr (disk1, n) \<Rightarrow>
                      (case writeObjects c os (objects f) keys
                              ([(0, (0, 0, 65535))], [], offset + n, disk1) of
                         Inl err \<Rightarrow> Inr (Inl err)
                       | Inr (xrefs1, free, offset1, disk2) \<Rightarrow>
                           (let xrefs2 = linkFree (sort free) xrefs1;
                                groups = groupConsecutive (sort (map fst xrefs2))
                            in case tableGroups os xrefs2 groups
                                      (fprintf os disk2 (''xref'' @ [newline])) of
                                 Inl p \<Rightarrow> Inl p
                               | Inr disk3 \<Rightarrow>
                                   (let trailer = trailerFields f (maxObjNum keys) in
                                    case writeTo c os (fprintf os disk3 (newline # ''trailer'' @ [newline]))
                                           (Dictionary trailer) of
                                      Inl err \<Rightarrow> Inr (Inl err)
                                    | Inr (disk4, n4) \<Rightarrow>
                                        Inr (Inr (f, fprintf os disk4 (footer offset1),
                                          \<lparr>rev_xrefs = xrefs2, rev_groups = groups,
                                           rev_trailer = trailer, rev_startxref = offset1 - 1\<rparr>))))))))"

section \<open>Create, and the stores and collaborators of the examples\<close>

text \<open>\<^verbatim>\<open>Create\<close>, lines 94 to 121: the store it returns and the file it writes.\<close>

definition newFile :: "string \<Rightarrow> File" where
  "newFile name = \<lparr>filename = name, created = True, mmap = [], objects = Map.empty, size_f = 1,
     prev = 0, Root = \<lparr>ObjectNumber = 0, GenerationNumber = 0\<rparr>, Encrypt = [],
     Info = \<lparr>ObjectNumber = 0, GenerationNumber = 0\<rparr>, ID = []\<rparr>"

definition header :: bytes where
  "header = ''%PDF-1.7''"

text \<open>An operating system without failures.\<close>

definition reliable :: sys where
  "reliable = \<lparr>statErr = None, openErr = None, writeErr = (\<lambda>disk b. None), closeErr = None\<rparr>"

text \<open>
  A small codec for the examples: a number is decimal digits after blanks, an object is a
  number, a stream's payload is stored undecoded, every written object is three bytes, and
  every field of the cross-reference stream is one byte.
\<close>

definition parseDigits :: "bytes \<Rightarrow> error + (Object \<times> int)" where
  "parseDigits s =
     (let body = dropWhile (\<lambda>ch. ch = CHR '' '') s;
          ds = takeWhile (\<lambda>ch. ch \<in> set ''0123456789'') body
      in if ds = [] then Inl (External ''no digits'')
         else Inr (Integer (foldl (\<lambda>a ch. 10 * a + (of_char ch - 48)) 0 ds),
                   int (length s - length body + length ds)))"

definition exampleCodec :: codec where
  "exampleCodec = \<lparr>parseIndirectObject = (\<lambda>s. Inl (External ''unsupported'')),
     parseNumeric = parseDigits, parseObject = parseDigits, Decode = (\<lambda>d s. Inr s),
     writeObject = (\<lambda>obj. ''obj''), nBytesForInt = (\<lambda>i. 1),
     intToBytes = (\<lambda>u n. replicate (nat n) CHR ''.'')\<rparr>"

text \<open>
  Object 5 is recorded at slot 0 of the object stream 9, whose header lists object 7 at
  slot 0 and object 5 at slot 1.
\<close>

definition objectStreamFile :: File where
  "objectStreamFile = (newFile ''a.pdf'')\<lparr>objects :=
     [5 \<mapsto> XRef (2, 9, 0),
      9 \<mapsto> NewObject \<lparr>ObjectNumber = 9, GenerationNumber = 0\<rparr>
             (Stream [(''N'', Integer 2), (''First'', Integer 8)] ''7 0 5 3 11 22'')]\<rparr>"

text \<open>A stream whose \<^verbatim>\<open>Length\<close> is the indirect object 2.\<close>

definition lengthStream :: Object where
  "lengthStream =
     Stream [(''Length'', Reference \<lparr>ObjectNumber = 2, GenerationNumber = 0\<rparr>)] ''abc''"

text \<open>A store with one freed object, and one with one new object.\<close>

definition freedFile :: File where
  "freedFile = (newFile ''a.pdf'')\<lparr>objects := [1 \<mapsto> FreeObject 1]\<rparr>"

definition oneObjectFile :: File where
  "oneObjectFile = (newFile ''a.pdf'')\<lparr>objects :=
     [1 \<mapsto> NewObject \<lparr>ObjectNumber = 1, GenerationNumber = 0\<rparr> (Integer 7)]\<rparr>"

text \<open>
  The store after \<^verbatim>\<open>Add\<close> of that stream as object 1, with no object 2, and with
  the integer 1 as object 2.
\<close>

definition danglingLengthFile :: File where
  "danglingLengthFile = (newFile ''a.pdf'')\<lparr>objects :=
     [1 \<mapsto> NewObject \<lparr>ObjectNumber = 1, GenerationNumber = 0\<rparr> lengthStream]\<rparr>"

definition lengthFile :: File where
  "lengthFile = (newFile ''a.pdf'')\<lparr>objects :=
     [2 \<mapsto> NewObject \<lparr>ObjectNumber = 2, GenerationNumber = 0\<rparr> (Integer 1)]\<rparr>"

text \<open>Stores with a normal and with a compressed entry for object 1.\<close>

definition normalFile :: File where
  "normalFile = (newFile ''a.pdf'')\<lparr>objects := [1 \<mapsto> XRef (1, 100, 3)]\<rparr>"

definition compressedFile :: File where
  "compressedFile = (newFile ''a.pdf'')\<lparr>objects := [1 \<mapsto> XRef (2, 9, 0)]\<rparr>"

section \<open>What the claims compare\<close>

text \<open>Two results of \<^verbatim>\<open>Get\<close> are the same up to the error inside a \<open>Null\<close>.\<close>

fun isNull :: "outcome \<Rightarrow> bool" where
  "isNull (Some (Inr (Null d))) = True"
| "isNull r = False"

definition sameUpToDiagnostic :: "outcome \<Rightarrow> outcome \<Rightarrow> bool" where
  "sameUpToDiagnostic x y = (x = y \<or> (isNull x \<and> isNull y))"

text \<open>The objects that lines 219 to 229 rewrite.\<close>

definition lengthIsReference :: "Object \<Rightarrow> bool" where
  "lengthIsReference object =
     (case object of
        Stream d s \<Rightarrow> (case map_of d ''Length'' of Some (Reference lengthRef) \<Rightarrow> True | _ \<Rightarrow> False)
      | _ \<Rightarrow> False)"

text \<open>The revision and the store of a save that succeeded, and a slot of that store.\<close>

definition savedRevision :: "saved \<Rightarrow> revision option" where
  "savedRevision r = (case r of Inr (Inr (f, disk, rv)) \<Rightarrow> Some rv | _ \<Rightarrow> None)"

definition savedFile :: "saved \<Rightarrow> File option" where
  "savedFile r = (case r of Inr (Inr (f, disk, rv)) \<Rightarrow> Some f | _ \<Rightarrow> None)"

definition savedSlot :: "saved \<Rightarrow> uint \<Rightarrow> slot option" where
  "savedSlot r n = (case savedFile r of Some f \<Rightarrow> objects f n | None \<Rightarrow> None)"

text \<open>
  Two calls of \<^verbatim>\<open>Save\<close> in sequence on one \<^verbatim>\<open>File\<close>: the second one works on the
  store and on the file that the first one left. The result is the two revisions.
\<close>

definition saveTwice ::
  "codec \<Rightarrow> sys \<Rightarrow> uint list \<Rightarrow> uint list \<Rightarrow> File \<Rightarrow> bytes \<Rightarrow> (revision \<times> revision) option" where
  "saveTwice c os keys1 keys2 f disk =
     (case Save c os keys1 f disk of
        Inr (Inr (f1, disk1, rv1)) \<Rightarrow>
          (case Save c os keys2 f1 disk1 of
             Inr (Inr (f2, disk2, rv2)) \<Rightarrow> Some (rv1, rv2)
           | _ \<Rightarrow> None)
      | _ \<Rightarrow> None)"

text \<open>The numbers that the loop of lines 508 to 536 appends to the free list.\<close>

fun freeNumbers :: "(uint \<rightharpoonup> slot) \<Rightarrow> uint list \<Rightarrow> int list" where
  "freeNumbers objs [] = []"
| "freeNumbers objs (i # rest) =
     (case objs i of
        Some (XRef typed) \<Rightarrow> (if fst typed = 0 then [sint i] else [])
      | Some (FreeObject g) \<Rightarrow> [sint i]
      | _ \<Rightarrow> []) @ freeNumbers objs rest"

section \<open>Add\<close>

text \<open>
  C3. When the object number of an added \<^verbatim>\<open>IndirectObject\<close> has a slot, the minimum
  generation \<open>m\<close> comes from the slot: the stored generation of a free or normal entry,
  0 for a compressed entry, the generation of a new object, the recorded next generation
  of a freed slot. A smaller generation gives the error, the reference with generation
  \<open>m\<close>, and the store as it was; otherwise the slot becomes the new object.
\<close>

theorem Add_minimum_generation:
  assumes "objects f (ObjectNumber r) = Some existing"
    and "existing = XRef (0, a, m) \<or> existing = XRef (1, a, m) \<or> (existing = XRef (2, a, b) \<and> m = 0)
         \<or> (existing = NewObject r' v' \<and> m = GenerationNumber r') \<or> existing = FreeObject m"
  shows "Add f (IndirectObject r v) =
     (if GenerationNumber r < m
      then Inr (f, \<lparr>ObjectNumber = ObjectNumber r, GenerationNumber = m\<rparr>, Some GenerationTooSmall)
      else Inr (f\<lparr>objects := (objects f)(ObjectNumber r \<mapsto> NewObject r v)\<rparr>, r, None))"
  using assms by (auto simp: Add_def minGenerationNumber_def Let_def)

theorem Add_minimum_generation_witness:
  "objects freedFile 1 = Some (FreeObject 1) \<and>
   Add freedFile (IndirectObject \<lparr>ObjectNumber = 1, GenerationNumber = 0\<rparr> (Integer 5)) =
     Inr (freedFile, \<lparr>ObjectNumber = 1, GenerationNumber = 1\<rparr>, Some GenerationTooSmall) \<and>
   Add freedFile (IndirectObject \<lparr>ObjectNumber = 1, GenerationNumber = 1\<rparr> (Integer 5)) =
     Inr (freedFile\<lparr>objects := (objects freedFile)
            (1 \<mapsto> NewObject \<lparr>ObjectNumber = 1, GenerationNumber = 1\<rparr> (Integer 5))\<rparr>,
          \<lparr>ObjectNumber = 1, GenerationNumber = 1\<rparr>, None)"
proof -
  have slot: "objects freedFile 1 = Some (FreeObject 1)"
    by (simp add: freedFile_def)
  show ?thesis
    using slot
      Add_minimum_generation [where f = freedFile and existing = "FreeObject 1" and m = 1
        and r = "\<lparr>ObjectNumber = 1, GenerationNumber = 0\<rparr>" and v = "Integer 5"
        and a = 0 and b = 0 and r' = "\<lparr>ObjectNumber = 1, GenerationNumber = 0\<rparr>" and v' = NilObject]
      Add_minimum_generation [where f = freedFile and existing = "FreeObject 1" and m = 1
        and r = "\<lparr>ObjectNumber = 1, GenerationNumber = 1\<rparr>" and v = "Integer 5"
        and a = 0 and b = 0 and r' = "\<lparr>ObjectNumber = 1, GenerationNumber = 0\<rparr>" and v' = NilObject]
    by simp
qed

section \<open>Free\<close>

text \<open>
  C5. \<^verbatim>\<open>Free\<close> records the next generation from the slot: \<open>g + 1\<close> for a normal
  entry of generation \<open>g\<close>, 1 for a compressed entry, \<open>g + 1\<close> for a new object of
  generation \<open>g\<close> (the sum is that of \<^verbatim>\<open>uint\<close>). On an absent number, a free entry or a
  freed slot it changes nothing, and a second \<^verbatim>\<open>Free\<close> of the same number leaves the
  store that the first one gave.
\<close>

theorem Free_next_generation:
  "(objects f n = Some (XRef (1, a, g)) \<longrightarrow>
      Free f n = Inr (f\<lparr>objects := (objects f)(n \<mapsto> FreeObject (g + 1))\<rparr>)) \<and>
   (objects f n = Some (XRef (2, a, b)) \<longrightarrow>
      Free f n = Inr (f\<lparr>objects := (objects f)(n \<mapsto> FreeObject 1)\<rparr>)) \<and>
   (objects f n = Some (NewObject r v) \<longrightarrow>
      Free f n = Inr (f\<lparr>objects := (objects f)(n \<mapsto> FreeObject (GenerationNumber r + 1))\<rparr>)) \<and>
   (objects f n = None \<or> objects f n = Some (XRef (0, a, b)) \<or> objects f n = Some (FreeObject g) \<longrightarrow>
      Free f n = Inr f) \<and>
   (Free f n = Inr f' \<longrightarrow> Free f' n = Inr f')"
  by (auto simp: Free_def split: option.splits slot.splits if_splits)

theorem Free_next_generation_witness:
  "Free normalFile 1 = Inr (normalFile\<lparr>objects := (objects normalFile)(1 \<mapsto> FreeObject (3 + 1))\<rparr>) \<and>
   Free (normalFile\<lparr>objects := (objects normalFile)(1 \<mapsto> FreeObject (3 + 1))\<rparr>) 1 =
     Inr (normalFile\<lparr>objects := (objects normalFile)(1 \<mapsto> FreeObject (3 + 1))\<rparr>) \<and>
   Free compressedFile 1 = Inr (compressedFile\<lparr>objects := (objects compressedFile)(1 \<mapsto> FreeObject 1)\<rparr>) \<and>
   Free oneObjectFile 1 = Inr (oneObjectFile\<lparr>objects := (objects oneObjectFile)
       (1 \<mapsto> FreeObject (GenerationNumber \<lparr>ObjectNumber = 1, GenerationNumber = 0\<rparr> + 1))\<rparr>) \<and>
   Free freedFile 1 = Inr freedFile"
proof -
  have normal: "objects normalFile 1 = Some (XRef (1, 100, 3))"
    by (simp add: normalFile_def)
  have compressed: "objects compressedFile 1 = Some (XRef (2, 9, 0))"
    by (simp add: compressedFile_def)
  have new: "objects oneObjectFile 1 = Some (NewObject \<lparr>ObjectNumber = 1, GenerationNumber = 0\<rparr> (Integer 7))"
    by (simp add: oneObjectFile_def)
  have freed: "objects freedFile 1 = None \<or> objects freedFile 1 = Some (XRef (0, 0, 0)) \<or>
      objects freedFile 1 = Some (FreeObject 1)"
    by (simp add: freedFile_def)
  note once = Free_next_generation [where f = normalFile and n = 1 and a = 100 and g = 3,
      THEN conjunct1, THEN mp, OF normal]
  note twice = Free_next_generation [where f = normalFile and n = 1,
      THEN conjunct2, THEN conjunct2, THEN conjunct2, THEN conjunct2, THEN mp, OF once]
  note comp = Free_next_generation [where f = compressedFile and n = 1 and a = 9 and b = 0,
      THEN conjunct2, THEN conjunct1, THEN mp, OF compressed]
  note newobj = Free_next_generation [where f = oneObjectFile and n = 1,
      THEN conjunct2, THEN conjunct2, THEN conjunct1, THEN mp, OF new]
  note again = Free_next_generation [where f = freedFile and n = 1 and a = 0 and b = 0 and g = 1,
      THEN conjunct2, THEN conjunct2, THEN conjunct2, THEN conjunct1, THEN mp, OF freed]
  show ?thesis
    by (intro conjI) (rule once twice comp newobj again)+
qed

section \<open>Get\<close>

lemma isNull_returns [simp]: "isNull (returns (Null d))"
  by (simp add: returns_def)

lemma sameUpToDiagnostic_refl [simp]: "sameUpToDiagnostic x x"
  by (simp add: sameUpToDiagnostic_def)

lemma sameUpToDiagnostic_Null [simp]: "sameUpToDiagnostic (returns (Null d)) (returns (Null e))"
  by (simp add: sameUpToDiagnostic_def)

lemma getNormal_same: "sameUpToDiagnostic (getNormal c get m r1 typed) (getNormal c get m r2 typed)"
  by (simp add: getNormal_def split: prod.splits sum.splits Object.splits)

lemma fromIndex_same:
  assumes "ObjectNumber r1 = ObjectNumber r2"
  shows "fromIndex c get r1 b d stream index = fromIndex c get r2 b d stream index"
  unfolding fromIndex_def assms ..

lemma getCompressed_same:
  "ObjectNumber r1 = ObjectNumber r2 \<Longrightarrow>
   sameUpToDiagnostic (getCompressed c get r1 typed) (getCompressed c get r2 typed)"
  by (simp add: getCompressed_def Let_def fromIndex_same [of r1 r2]
      split: prod.splits sum.splits Object.splits option.splits)

text \<open>
  C10. \<^verbatim>\<open>Get\<close> reads the object number of the reference only: two references with the
  same object number get the same result, up to the error inside a \<open>Null\<close>, whatever
  their generation numbers are.
\<close>

theorem Get_ignores_generation:
  "ObjectNumber r1 = ObjectNumber r2 \<Longrightarrow> sameUpToDiagnostic (Get c k f r1) (Get c k f r2)"
proof (cases k)
  case 0
  then show ?thesis by simp
next
  case (Suc j)
  assume eq: "ObjectNumber r1 = ObjectNumber r2"
  show ?thesis
  proof (cases "objects f (ObjectNumber r2)")
    case None
    with Suc eq show ?thesis by simp
  next
    case (Some s)
    with Suc eq show ?thesis
      by (cases s) (simp_all add: getNormal_same getCompressed_same)
  qed
qed

theorem Get_ignores_generation_witness:
  "ObjectNumber \<lparr>ObjectNumber = 1, GenerationNumber = 0\<rparr> = ObjectNumber \<lparr>ObjectNumber = 1, GenerationNumber = 7\<rparr> \<and>
   sameUpToDiagnostic
     (Get exampleCodec (Suc 0) oneObjectFile \<lparr>ObjectNumber = 1, GenerationNumber = 0\<rparr>)
     (Get exampleCodec (Suc 0) oneObjectFile \<lparr>ObjectNumber = 1, GenerationNumber = 7\<rparr>) \<and>
   Get exampleCodec (Suc 0) oneObjectFile \<lparr>ObjectNumber = 1, GenerationNumber = 7\<rparr> = returns (Integer 7)"
  using Get_ignores_generation [of "\<lparr>ObjectNumber = 1, GenerationNumber = 0\<rparr>"
      "\<lparr>ObjectNumber = 1, GenerationNumber = 7\<rparr>" exampleCodec "Suc 0" oneObjectFile]
  by (simp add: oneObjectFile_def resolveLength_def)

lemma resolveLength_plain: "\<not> lengthIsReference v \<Longrightarrow> resolveLength get v = returns v"
  by (auto simp: lengthIsReference_def resolveLength_def split: Object.splits option.splits)

lemma Add_stores:
  "Add f (IndirectObject r v) = Inr (f', r', None) \<Longrightarrow> objects f' (ObjectNumber r) = Some (NewObject r v)"
  by (auto simp: Add_def Let_def split: option.splits sum.splits if_splits)

text \<open>
  C6, as the claim has it, fails: after \<^verbatim>\<open>Add\<close> of a stream whose \<^verbatim>\<open>Length\<close> is the
  reference \<open>2 0\<close>, with the integer 1 as object 2, \<^verbatim>\<open>Get\<close> returns the stream with
  the length 1 and the payload cut to one byte, not the stream that was added.
\<close>

theorem Get_after_Add_counterexample:
  "Add lengthFile (IndirectObject \<lparr>ObjectNumber = 1, GenerationNumber = 0\<rparr> lengthStream) =
     Inr (lengthFile\<lparr>objects := (objects lengthFile)
            (1 \<mapsto> NewObject \<lparr>ObjectNumber = 1, GenerationNumber = 0\<rparr> lengthStream)\<rparr>,
          \<lparr>ObjectNumber = 1, GenerationNumber = 0\<rparr>, None) \<and>
   Get exampleCodec (Suc (Suc 0))
     (lengthFile\<lparr>objects := (objects lengthFile)
        (1 \<mapsto> NewObject \<lparr>ObjectNumber = 1, GenerationNumber = 0\<rparr> lengthStream)\<rparr>)
     \<lparr>ObjectNumber = 1, GenerationNumber = 0\<rparr> = returns (Stream [(''Length'', Integer 1)] ''a'') \<and>
   returns (Stream [(''Length'', Integer 1)] ''a'') \<noteq> returns lengthStream"
proof (intro conjI)
  show "Add lengthFile (IndirectObject \<lparr>ObjectNumber = 1, GenerationNumber = 0\<rparr> lengthStream) =
     Inr (lengthFile\<lparr>objects := (objects lengthFile)
            (1 \<mapsto> NewObject \<lparr>ObjectNumber = 1, GenerationNumber = 0\<rparr> lengthStream)\<rparr>,
          \<lparr>ObjectNumber = 1, GenerationNumber = 0\<rparr>, None)"
    by (simp add: Add_def Let_def lengthFile_def)
  show "Get exampleCodec (Suc (Suc 0))
     (lengthFile\<lparr>objects := (objects lengthFile)
        (1 \<mapsto> NewObject \<lparr>ObjectNumber = 1, GenerationNumber = 0\<rparr> lengthStream)\<rparr>)
     \<lparr>ObjectNumber = 1, GenerationNumber = 0\<rparr> = returns (Stream [(''Length'', Integer 1)] ''a'')"
    by code_simp
  show "returns (Stream [(''Length'', Integer 1)] ''a'') \<noteq> returns lengthStream"
    by (simp add: returns_def lengthStream_def)
qed

text \<open>
  C6, amended. After a successful \<^verbatim>\<open>Add\<close> of an \<^verbatim>\<open>IndirectObject\<close>, \<^verbatim>\<open>Get\<close> on its
  object number (with any generation number) returns what lines 219 to 229 make of the
  added value, whatever the slot held before: the value itself, unless it is a stream
  whose \<^verbatim>\<open>Length\<close> is a reference.
\<close>

theorem Get_after_Add:
  assumes "Add f (IndirectObject r v) = Inr (f', r', None)" and "ObjectNumber q = ObjectNumber r"
  shows "Get c (Suc k) f' q = resolveLength (Get c k f') v \<and>
         (\<not> lengthIsReference v \<longrightarrow> Get c (Suc k) f' q = returns v)"
  using Add_stores [OF assms(1)] assms(2) by (simp add: resolveLength_plain)

theorem Get_after_Add_witness:
  "Add freedFile (IndirectObject \<lparr>ObjectNumber = 1, GenerationNumber = 1\<rparr> (Integer 5)) =
     Inr (freedFile\<lparr>objects := (objects freedFile)
            (1 \<mapsto> NewObject \<lparr>ObjectNumber = 1, GenerationNumber = 1\<rparr> (Integer 5))\<rparr>,
          \<lparr>ObjectNumber = 1, GenerationNumber = 1\<rparr>, None) \<and>
   \<not> lengthIsReference (Integer 5) \<and>
   Get exampleCodec (Suc 0)
     (freedFile\<lparr>objects := (objects freedFile)
        (1 \<mapsto> NewObject \<lparr>ObjectNumber = 1, GenerationNumber = 1\<rparr> (Integer 5))\<rparr>)
     \<lparr>ObjectNumber = 1, GenerationNumber = 1\<rparr> = returns (Integer 5)"
proof -
  have added: "Add freedFile (IndirectObject \<lparr>ObjectNumber = 1, GenerationNumber = 1\<rparr> (Integer 5)) =
     Inr (freedFile\<lparr>objects := (objects freedFile)
            (1 \<mapsto> NewObject \<lparr>ObjectNumber = 1, GenerationNumber = 1\<rparr> (Integer 5))\<rparr>,
          \<lparr>ObjectNumber = 1, GenerationNumber = 1\<rparr>, None)"
    by (simp add: Add_def Let_def freedFile_def minGenerationNumber_def)
  have plain: "\<not> lengthIsReference (Integer 5)"
    by (simp add: lengthIsReference_def)
  show ?thesis
    using added plain
      Get_after_Add [OF added, of "\<lparr>ObjectNumber = 1, GenerationNumber = 1\<rparr>" exampleCodec 0]
    by simp
qed

text \<open>
  C2. The claim is what the code documents, and the code breaks it: for the stream of
  \<open>lengthStream\<close> added as object 1 to a new store, where the object 2 that its
  \<^verbatim>\<open>Length\<close> names does not exist, \<^verbatim>\<open>Get\<close> gets a \<open>Null\<close> for the length and the
  type assertion to \<^verbatim>\<open>Integer\<close> panics, with any codec and any fuel of two or more.
\<close>

theorem Get_unresolvable_Length_panics:
  "Add (newFile ''a.pdf'') (IndirectObject \<lparr>ObjectNumber = 1, GenerationNumber = 0\<rparr> lengthStream) =
     Inr (danglingLengthFile, \<lparr>ObjectNumber = 1, GenerationNumber = 0\<rparr>, None) \<and>
   Get c (Suc (Suc k)) danglingLengthFile \<lparr>ObjectNumber = 1, GenerationNumber = 0\<rparr> =
     panics TypeAssertion"
  by (simp add: Add_def Let_def danglingLengthFile_def newFile_def lengthStream_def
      resolveLength_def returns_def)

lemma parseIndex_length:
  "parseIndex c stream cnt offset acc = Inr index \<Longrightarrow> length index = length acc + cnt"
proof (induction cnt arbitrary: offset acc)
  case 0
  then show ?case by simp
next
  case (Suc cnt)
  from Suc.prems show ?case
    by (auto split: sum.splits prod.splits Object.splits dest!: Suc.IH)
qed

lemma scanIndex_first_match:
  "even (length index) \<Longrightarrow> 2 * i < length index \<Longrightarrow> index ! (2 * i) = num \<Longrightarrow>
   \<forall>j<i. index ! (2 * j) \<noteq> num \<Longrightarrow> scanIndex index num off = Inr (index ! (2 * i + 1))"
proof (induction index num off arbitrary: i rule: scanIndex.induct)
  case (1 objectNumber offset)
  then show ?case by simp
next
  case (2 x objectNumber offset)
  then show ?case by simp
next
  case (3 x y rest objectNumber offset)
  show ?case
  proof (cases i)
    case 0
    with "3.prems" show ?thesis by simp
  next
    case (Suc i')
    with "3.prems" have ne: "x \<noteq> objectNumber" by auto
    from "3.prems" Suc have a: "even (length rest)" "2 * i' < length rest" "rest ! (2 * i') = objectNumber"
      by auto
    have b: "\<forall>j<i'. rest ! (2 * j) \<noteq> objectNumber"
    proof (intro allI impI)
      fix j assume "j < i'"
      then have "Suc j < i" using Suc by simp
      with "3.prems"(4) have "(x # y # rest) ! (2 * Suc j) \<noteq> objectNumber" by blast
      then show "rest ! (2 * j) \<noteq> objectNumber" by simp
    qed
    from "3.IH" [OF ne a b] ne Suc show ?thesis by simp
  qed
qed

lemma unat_double_even: "even (unat ((w::uint) * 2))"
proof -
  have "unat (w * 2) = unat w * 2 mod 2 ^ 64" by (simp add: unat_word_ariths)
  moreover have "even (unat w * 2 mod 2 ^ 64)"
    by (metis dvd_triv_right dvd_power numeral_2_eq_2 zero_less_numeral dvd_mod)
  ultimately show ?thesis by simp
qed

lemma unat_succ_even: "even (unat (w::uint)) \<Longrightarrow> unat (w + 1) = unat w + 1"
proof -
  assume ev: "even (unat w)"
  have "w + 1 \<noteq> 0"
  proof
    assume "w + 1 = 0"
    then have "w = - 1" by (metis add_eq_0_iff2 eq_neg_iff_add_eq_0)
    then have "unat w = 2 ^ 64 - 1" by (simp add: unsigned_minus_1_eq_mask mask_eq_exp_minus_1)
    with ev show False by simp
  qed
  then have "1 + w \<noteq> 0" by (simp add: add.commute)
  then have "unat (1 + w) = Suc (unat w)" by (rule unatSuc)
  then show ?thesis by (simp add: add.commute)
qed

text \<open>
  C4. A reference is resolved through a compressed entry: the container is a stream, its
  header parses, and the recorded slot selects a pair of the header whose object number
  is not the requested one. Then the header is scanned from its start, and when the pair
  \<open>i\<close> is the first one with the requested number, \<^verbatim>\<open>Get\<close> returns the object parsed
  at \<^verbatim>\<open>First\<close> plus that pair's offset (after lines 219 to 229).
\<close>

theorem Get_compressed_scan:
  assumes entry: "objects f (ObjectNumber ref) = Some (XRef (2, container, slotIndex))"
    and cont: "Get c k f \<lparr>ObjectNumber = container, GenerationNumber = 0\<rparr> = returns (Stream d s)"
    and N: "map_of d ''N'' = Some (Integer N)"
    and dec: "Decode c d s = Inr stream"
    and hdr: "parseIndex c stream (nat (N * 2)) 0 [] = Inr index"
    and slot: "unat (slotIndex * 2) < length index"
    and mismatch: "index ! unat (slotIndex * 2) \<noteq> sint (ObjectNumber ref)"
    and pair: "2 * i < length index" "index ! (2 * i) = sint (ObjectNumber ref)"
    and firstPair: "\<forall>j<i. index ! (2 * j) \<noteq> sint (ObjectNumber ref)"
    and first: "map_of d ''First'' = Some (Integer first)"
    and inside: "0 \<le> first + index ! (2 * i + 1)" "first + index ! (2 * i + 1) \<le> int (length stream)"
    and obj: "parseObject c (drop (nat (first + index ! (2 * i + 1))) stream) = Inr (object, n)"
  shows "Get c (Suc k) f ref = resolveLength (Get c k f) object"
proof -
  have len: "length index = nat (N * 2)"
    using parseIndex_length [OF hdr] by simp
  have "nat (N * 2) = 2 * nat N" by (cases "0 \<le> N") auto
  with len have ev: "even (length index)" by simp
  have e0: "even (unat (slotIndex * 2))" by (rule unat_double_even)
  then have u1: "unat (slotIndex * 2 + 1) = unat (slotIndex * 2) + 1" by (rule unat_succ_even)
  from e0 ev slot have s1: "unat (slotIndex * 2) + 1 < length index"
    by (metis Suc_eq_plus1 Suc_lessI even_Suc)
  have a0: "elemAt index (unat (slotIndex * 2)) = Inr (index ! unat (slotIndex * 2))"
    using slot by (simp add: elemAt_def)
  have a1: "elemAt index (unat (slotIndex * 2 + 1)) = Inr (index ! (unat (slotIndex * 2) + 1))"
    using s1 u1 by (simp add: elemAt_def)
  have sc: "scanIndex index (sint (ObjectNumber ref)) (index ! (unat (slotIndex * 2) + 1))
            = Inr (index ! (2 * i + 1))"
    using scanIndex_first_match [OF ev pair firstPair] .
  have sl: "sliceFrom stream (first + index ! (2 * i + 1))
            = Inr (drop (nat (first + index ! (2 * i + 1))) stream)"
    using inside by (simp add: sliceFrom_def)
  have fi: "fromIndex c (Get c k f) ref slotIndex d stream index = resolveLength (Get c k f) object"
    unfolding fromIndex_def Let_def using a0 a1 mismatch sc first sl obj by simp
  have gc: "getCompressed c (Get c k f) ref (2, container, slotIndex) = resolveLength (Get c k f) object"
    unfolding getCompressed_def Let_def using cont N dec hdr fi by (simp add: returns_def)
  show ?thesis using entry gc by simp
qed

theorem Get_compressed_scan_witness:
  "objects objectStreamFile 5 = Some (XRef (2, 9, 0)) \<and>
   parseIndex exampleCodec ''7 0 5 3 11 22'' (nat (2 * 2)) 0 [] = Inr [7, 0, 5, 3] \<and>
   [7, 0, 5, 3] ! unat ((0::uint) * 2) \<noteq> sint (5::uint) \<and>
   Get exampleCodec (Suc (Suc 0)) objectStreamFile \<lparr>ObjectNumber = 5, GenerationNumber = 0\<rparr> =
     returns (Integer 22)"
proof -
  let ?d = "[(''N'', Integer 2), (''First'', Integer 8)]"
  let ?s = "''7 0 5 3 11 22''"
  let ?ref = "\<lparr>ObjectNumber = 5, GenerationNumber = 0\<rparr>"
  have entry: "objects objectStreamFile (ObjectNumber ?ref) = Some (XRef (2, 9, 0))"
    by (simp add: objectStreamFile_def)
  have cont: "Get exampleCodec (Suc 0) objectStreamFile \<lparr>ObjectNumber = 9, GenerationNumber = 0\<rparr> =
      returns (Stream ?d ?s)"
    by code_simp
  have N: "map_of ?d ''N'' = Some (Integer 2)" by simp
  have dec: "Decode exampleCodec ?d ?s = Inr ?s" by (simp add: exampleCodec_def)
  have hdr: "parseIndex exampleCodec ?s (nat (2 * 2)) 0 [] = Inr [7, 0, 5, 3]" by code_simp
  have slot: "unat ((0::uint) * 2) < length [7, 0, 5, 3::int]" by simp
  have mismatch: "[7, 0, 5, 3] ! unat ((0::uint) * 2) \<noteq> sint (ObjectNumber ?ref)" by simp
  have pair: "2 * 1 < length [7, 0, 5, 3::int]" "[7, 0, 5, 3] ! (2 * 1) = sint (ObjectNumber ?ref)"
    by simp_all
  have firstPair: "\<forall>j<1. [7, 0, 5, 3] ! (2 * j) \<noteq> sint (ObjectNumber ?ref)" by simp
  have first: "map_of ?d ''First'' = Some (Integer 8)" by simp
  have inside: "0 \<le> 8 + [7, 0, 5, 3::int] ! (2 * 1 + 1)"
    "8 + [7, 0, 5, 3::int] ! (2 * 1 + 1) \<le> int (length ?s)" by simp_all
  have obj: "parseObject exampleCodec (drop (nat (8 + [7, 0, 5, 3] ! (2 * 1 + 1))) ?s) = Inr (Integer 22, 2)"
    by code_simp
  have "Get exampleCodec (Suc (Suc 0)) objectStreamFile ?ref =
      resolveLength (Get exampleCodec (Suc 0) objectStreamFile) (Integer 22)"
    by (rule Get_compressed_scan [OF entry cont N dec hdr slot mismatch pair firstPair first inside obj])
  then show ?thesis using entry hdr mismatch by (simp add: resolveLength_def)
qed

end
